theory Spec2Isabelle
  imports Main
begin

section \<open>Label sets\<close>

text \<open>
  The source keeps labels in JavaScript \<^verbatim>\<open>Set<string>\<close> objects. A JavaScript set
  iterates in insertion order and holds no element twice, so it is modelled as a list
  without repetition, oldest element first. \<^verbatim>\<open>new Set(array)\<close> inserts the elements of
  the array one after the other, \<^verbatim>\<open>add\<close> appends an element that is not yet present,
  \<^verbatim>\<open>delete\<close> takes the element out, \<^verbatim>\<open>has\<close> is membership.
\<close>

type_synonym label = string
type_synonym label_set = "label list"

definition set_has :: "label_set \<Rightarrow> label \<Rightarrow> bool" where
  "set_has s x = (x \<in> set s)"

definition set_add :: "label_set \<Rightarrow> label \<Rightarrow> label_set" where
  "set_add s x = (if set_has s x then s else s @ [x])"

definition set_delete :: "label_set \<Rightarrow> label \<Rightarrow> label_set" where
  "set_delete s x = filter (\<lambda>y. y \<noteq> x) s"

definition new_Set :: "label list \<Rightarrow> label_set" where
  "new_Set xs = foldl set_add [] xs"

section \<open>The manager and its configuration\<close>

text \<open>
  \<^verbatim>\<open>PullRequsetLabelManagerOptions\<close>: every field is optional, \<open>None\<close> is an
  absent field.
\<close>

record options =
  opt_priorityLabels :: "label list option"
  opt_classificationLabels :: "label list option"
  opt_effortLabels :: "label list option"
  opt_pullNumbers :: "nat list option"

text \<open>
  An error that a call raises: the rejection of a request for a pull request or an
  issue that does not exist, or an error object with its message.
\<close>

datatype error = NotFound | Error string

text \<open>
  The module \<^verbatim>\<open>@actions/github\<close> is not code of this repository; the constructor
  calls it three times, and the outcome of each call is a parameter of the model.
  \<^verbatim>\<open>github.getOctokit(token)\<close> returns a client or raises an error;
  the getter \<^verbatim>\<open>github.context.repo\<close> returns the owner and the name of the
  repository or raises an error; \<^verbatim>\<open>github.context.payload.pull_request\<close> is the
  pull request of the triggering event, of which the constructor reads the number, or
  is absent. The client itself is not kept in the model of the manager: the repository
  it talks to is passed to the operations that use it.
\<close>

record github =
  getOctokit :: "string \<Rightarrow> error + unit"
  context_repo :: "error + string \<times> string"
  context_pull_request :: "nat option"

record manager =
  owner :: string
  repo :: string
  pullNumbers :: "nat list"
  priorityLabels :: "label list"
  classificationLabels :: "label list"
  effortLabels :: "label list"

text \<open>
  The constructor (lines 47 to 68). Line 51 makes the client and lines 52 and 53 read
  the repository; an error raised there leaves the constructor, and no manager is
  built. The rest of the constructor has no \<^verbatim>\<open>throw\<close> and calls nothing that
  raises. \<^verbatim>\<open>??\<close> replaces only an absent list by the default; a list that is given,
  also the empty one, is taken as it is. The pull numbers are the given list when it is
  given and not empty, the empty list otherwise; the number of the pull request of the
  payload, when there is one, is then pushed onto that list.
\<close>

definition constructor :: "github \<Rightarrow> string \<Rightarrow> options \<Rightarrow> error + manager" where
  "constructor g token opts =
     (case getOctokit g token of
        Inl e \<Rightarrow> Inl e
      | Inr client \<Rightarrow>
          (case context_repo g of
             Inl e \<Rightarrow> Inl e
           | Inr (repo_owner, repo_name) \<Rightarrow>
               Inr \<lparr> owner = repo_owner,
                     repo = repo_name,
                     pullNumbers =
                       (case opt_pullNumbers opts of
                          None \<Rightarrow> []
                        | Some ns \<Rightarrow> if length ns > 0 then ns else [])
                       @ (case context_pull_request g of None \<Rightarrow> [] | Some n \<Rightarrow> [n]),
                     priorityLabels =
                       (case opt_priorityLabels opts of
                          None \<Rightarrow> [''p0'', ''p1'', ''p2'']
                        | Some ls \<Rightarrow> ls),
                     classificationLabels =
                       (case opt_classificationLabels opts of
                          None \<Rightarrow> [''bug'', ''feature-request'']
                        | Some ls \<Rightarrow> ls),
                     effortLabels =
                       (case opt_effortLabels opts of
                          None \<Rightarrow> [''effort/large'', ''effort/medium'', ''effort/small'']
                        | Some ls \<Rightarrow> ls) \<rparr>))"

section \<open>Resolving the label of each category\<close>

text \<open>
  \<^verbatim>\<open>Array.prototype.find\<close> is \<^const>\<open>List.find\<close>; \<open>None\<close> is
  \<^verbatim>\<open>undefined\<close>. The last alternative of \<^verbatim>\<open>highestPriorityLabel\<close> reads
  \<^verbatim>\<open>priorityLabels[priorityLabels.length - 1]\<close>, which is \<^verbatim>\<open>undefined\<close> for
  the empty array (the index is then \<open>-1\<close>).
\<close>

definition highestPriorityLabel :: "manager \<Rightarrow> label_set \<Rightarrow> label_set \<Rightarrow> label option" where
  "highestPriorityLabel m issueLabels pullLabels =
     (case List.find (\<lambda>l. set_has issueLabels l) (priorityLabels m) of
        Some l \<Rightarrow> Some l
      | None \<Rightarrow>
          (case List.find (\<lambda>l. set_has pullLabels l) (priorityLabels m) of
             Some l \<Rightarrow> Some l
           | None \<Rightarrow>
               if priorityLabels m = [] then None
               else Some (priorityLabels m ! (length (priorityLabels m) - 1))))"

definition classification :: "manager \<Rightarrow> label_set \<Rightarrow> label option" where
  "classification m labels = List.find (\<lambda>l. set_has labels l) (classificationLabels m)"

definition largestEffort :: "manager \<Rightarrow> label_set \<Rightarrow> label option" where
  "largestEffort m labels = List.find (\<lambda>l. set_has labels l) (effortLabels m)"

section \<open>Replacing labels and the difference of two label sets\<close>

text \<open>
  \<^verbatim>\<open>replaceLabels\<close> mutates its first argument; the model returns the new value of
  that set.
\<close>

definition replaceLabels :: "label_set \<Rightarrow> label list \<Rightarrow> label option \<Rightarrow> label_set" where
  "replaceLabels labels remove replace =
     (case replace of
        None \<Rightarrow> labels
      | Some r \<Rightarrow> set_add (foldl set_delete labels remove) r)"

record SetDiff =
  adds :: "label list"
  removes :: "label list"

definition setDiff :: "label_set \<Rightarrow> label_set \<Rightarrow> SetDiff" where
  "setDiff xs ys =
     \<lparr> adds = filter (\<lambda>y. \<not> set_has xs y) ys,
       removes = filter (\<lambda>x. \<not> set_has ys x) xs \<rparr>"

definition isEmptyDiff :: "SetDiff \<Rightarrow> bool" where
  "isEmptyDiff diff = (length (adds diff) + length (removes diff) = 0)"

text \<open>
  Lines 95 to 98 of \<^verbatim>\<open>copyLabelsFromReferencedIssues\<close>: the new label set of a pull
  request, from the set of its labels and the set of the labels of the issues it
  references.
\<close>

definition newPullLabels :: "manager \<Rightarrow> label_set \<Rightarrow> label_set \<Rightarrow> label_set" where
  "newPullLabels m pullLabels issueLabels =
     replaceLabels
       (replaceLabels
          (replaceLabels pullLabels (priorityLabels m)
             (highestPriorityLabel m issueLabels pullLabels))
          (classificationLabels m) (classification m issueLabels))
       (effortLabels m) (largestEffort m issueLabels)"

section \<open>Finding the issues a pull request closes\<close>

text \<open>
  A JavaScript string is a sequence of code units; the model takes the body of a pull
  request as a \<^typ>\<open>string\<close>, one \<^typ>\<open>char\<close> for each code unit, which covers the
  code units below 256. Of the line terminators that \<^verbatim>\<open>.\<close> refuses, line feed and
  carriage return are in that range.
\<close>

definition GITHUB_CLOSE_ISSUE_KEYWORDS :: "string list" where
  "GITHUB_CLOSE_ISSUE_KEYWORDS =
     [''close'', ''closes'', ''closed'', ''fix'', ''fixes'', ''fixed'',
      ''resolve'', ''resolves'', ''resolved'']"

text \<open>
  The two regular expressions of \<^verbatim>\<open>findReferencedIssues\<close> use four constructs: a
  literal character, \<^verbatim>\<open>.\<close> (any character but a line terminator), and the capturing
  groups \<^verbatim>\<open>(\w+)\<close> and \<^verbatim>\<open>(\d+)\<close>, a greedy repetition of a character class. Neither
  has the \<^verbatim>\<open>i\<close> or the \<^verbatim>\<open>u\<close> flag, so \<^verbatim>\<open>\w\<close> is a letter of the basic Latin
  alphabet, a decimal digit or the underscore, and \<^verbatim>\<open>\d\<close> is a decimal digit.
\<close>

datatype char_class = Word | Digit

definition is_digit :: "char \<Rightarrow> bool" where
  "is_digit c = (c \<in> set ''0123456789'')"

definition is_word :: "char \<Rightarrow> bool" where
  "is_word c =
     (c \<in> set ''abcdefghijklmnopqrstuvwxyzABCDEFGHIJKLMNOPQRSTUVWXYZ0123456789_'')"

fun in_class :: "char_class \<Rightarrow> char \<Rightarrow> bool" where
  "in_class Word c = is_word c"
| "in_class Digit c = is_digit c"

definition line_terminator :: "char \<Rightarrow> bool" where
  "line_terminator c = (c = CHR 0x0A \<or> c = CHR 0x0D)"

datatype atom = Lit char | Dot | Group char_class

type_synonym regex = "atom list"

text \<open>
  A match is the list of its captured groups: \<^verbatim>\<open>m[1]\<close> of the source is
  \<open>m ! 0\<close> and \<^verbatim>\<open>m[2]\<close> is \<open>m ! 1\<close>. Both expressions have two groups, so every
  match has two elements (lemma \<open>exec_shape\<close>).
\<close>

type_synonym match = "string list"

text \<open>
  Matching at the start of a string, by backtracking as the regular expression engine
  of JavaScript does: a greedy group first takes every character of its class that
  follows (at least one), and gives characters back one at a time while the rest of the
  expression does not match what follows. The result is the captured groups and the
  text after the match.
\<close>

fun greedy ::
  "(string \<Rightarrow> (match \<times> string) option) \<Rightarrow> string \<Rightarrow> nat \<Rightarrow> (match \<times> string) option" where
  "greedy k s 0 = None"
| "greedy k s (Suc n) =
     (case k (drop (Suc n) s) of
        Some (groups, rest) \<Rightarrow> Some (take (Suc n) s # groups, rest)
      | None \<Rightarrow> greedy k s n)"

primrec exec :: "regex \<Rightarrow> string \<Rightarrow> (match \<times> string) option" where
  "exec [] = (\<lambda>s. Some ([], s))"
| "exec (a # r) = (\<lambda>s.
     case a of
       Lit c \<Rightarrow> (case s of [] \<Rightarrow> None | x # t \<Rightarrow> if x = c then exec r t else None)
     | Dot \<Rightarrow>
         (case s of [] \<Rightarrow> None | x # t \<Rightarrow> if line_terminator x then None else exec r t)
     | Group k \<Rightarrow> greedy (exec r) s (length (takeWhile (in_class k) s)))"

text \<open>
  \<^verbatim>\<open>text.matchAll(regex)\<close> with the \<^verbatim>\<open>g\<close> flag: the leftmost match from the current
  position, then the search goes on where that match ended (one character further after
  an empty match); a position with no match is skipped.
\<close>

fun matchAll :: "regex \<Rightarrow> string \<Rightarrow> match list" where
  "matchAll r s =
     (case exec r s of
        Some (groups, rest) \<Rightarrow>
          groups #
          (if length rest < length s then matchAll r rest
           else (case s of [] \<Rightarrow> [] | x # t \<Rightarrow> matchAll r t))
      | None \<Rightarrow> (case s of [] \<Rightarrow> [] | x # t \<Rightarrow> matchAll r t))"

declare matchAll.simps [simp del]

text \<open>
  The text between the two groups. In \<^verbatim>\<open>urlRegex\<close> the owner and the name of the
  repository are pasted into the source of the expression without escaping. The names
  GitHub allows are made of letters, digits, \<^verbatim>\<open>-\<close>, \<^verbatim>\<open>_\<close> and \<^verbatim>\<open>.\<close>, of which
  only \<^verbatim>\<open>.\<close> is not a literal; the \<^verbatim>\<open>.\<close> of \<^verbatim>\<open>github.com\<close> is not escaped
  either.
\<close>

definition atoms :: "string \<Rightarrow> regex" where
  "atoms s = map (\<lambda>c. if c = CHR ''.'' then Dot else Lit c) s"

definition hashRegex :: regex where
  "hashRegex = Group Word # atoms '' #'' @ [Group Digit]"

definition urlRegex :: "manager \<Rightarrow> regex" where
  "urlRegex m =
     Group Word #
     atoms ('' https://github.com/'' @ owner m @ ''/'' @ repo m @ ''/issues/'') @
     [Group Digit]"

text \<open>
  \<^verbatim>\<open>toLowerCase\<close> is applied to the first group only, which holds word characters:
  on those it maps the capital letters of the basic Latin alphabet to the small ones.
\<close>

definition toLowerCase :: "string \<Rightarrow> string" where
  "toLowerCase s =
     map (\<lambda>c. case map_of (zip ''ABCDEFGHIJKLMNOPQRSTUVWXYZ'' ''abcdefghijklmnopqrstuvwxyz'') c of
                 Some l \<Rightarrow> l
               | None \<Rightarrow> c) s"

text \<open>
  \<^verbatim>\<open>parseInt(x, 10)\<close> is applied to the second group only, a non-empty string of
  decimal digits. The model gives the number those digits denote. JavaScript returns
  that number as a double: below \<open>2 ^ 53\<close> it is the same number, from there on
  it is rounded, and the model does not give the value of the code.
\<close>

definition parseInt :: "string \<Rightarrow> nat" where
  "parseInt ds = foldl (\<lambda>a c. 10 * a + (of_char c - 48)) 0 ds"

definition issuesClosed :: "regex \<Rightarrow> string \<Rightarrow> string list" where
  "issuesClosed regex text =
     map (\<lambda>m. m ! 1)
       (filter (\<lambda>m. toLowerCase (m ! 0) \<in> set GITHUB_CLOSE_ISSUE_KEYWORDS)
          (matchAll regex text))"

definition findReferencedIssues :: "manager \<Rightarrow> string \<Rightarrow> nat list" where
  "findReferencedIssues m text =
     map parseInt (issuesClosed hashRegex text @ issuesClosed (urlRegex m) text)"

section \<open>The repository behind the client\<close>

text \<open>
  Modelled from the spec: the repository gateway (section 6 of the specification), which
  stands for the REST client of GitHub, a library whose code is not part of this
  repository. What the manager needs of it is a store of pull requests (a body, which
  may be \<^verbatim>\<open>null\<close>, and the names of the labels) and of issues (the names of the
  labels). A request for a pull request or an issue that the store does not have fails
  with \<^verbatim>\<open>NotFound\<close>, which the manager sees as a raised error. \<^verbatim>\<open>addLabels\<close>
  adds the labels that the pull request does not have yet, \<^verbatim>\<open>removeLabel\<close> takes one
  label away.
\<close>

record pull_request =
  pr_body :: "string option"
  pr_labels :: "label list"

record gateway =
  pulls :: "nat \<rightharpoonup> pull_request"
  issues :: "nat \<rightharpoonup> label list"

definition addLabels :: "gateway \<Rightarrow> nat \<Rightarrow> label list \<Rightarrow> gateway" where
  "addLabels gw n ls =
     (case pulls gw n of
        None \<Rightarrow> gw
      | Some pull \<Rightarrow>
          gw\<lparr>pulls := (pulls gw)(n \<mapsto> pull\<lparr>pr_labels := foldl set_add (pr_labels pull) ls\<rparr>)\<rparr>)"

definition removeLabel :: "nat \<Rightarrow> gateway \<Rightarrow> label \<Rightarrow> gateway" where
  "removeLabel n gw l =
     (case pulls gw n of
        None \<Rightarrow> gw
      | Some pull \<Rightarrow>
          gw\<lparr>pulls := (pulls gw)(n \<mapsto> pull\<lparr>pr_labels := set_delete (pr_labels pull) l\<rparr>)\<rparr>)"

text \<open>
  \<^verbatim>\<open>issueLabels\<close> (lines 139 to 146): the names of the labels of an issue, read
  from the repository.
\<close>

definition issueLabels :: "gateway \<Rightarrow> nat \<Rightarrow> error + label list" where
  "issueLabels gw issue_number =
     (case issues gw issue_number of None \<Rightarrow> Inl NotFound | Some ls \<Rightarrow> Inr ls)"

text \<open>\<^verbatim>\<open>Promise.all\<close>: the list of the results, or an error when a promise is rejected.\<close>

primrec promise_all :: "(error + 'a) list \<Rightarrow> error + 'a list" where
  "promise_all [] = Inr []"
| "promise_all (p # ps) =
     (case p of
        Inl e \<Rightarrow> Inl e
      | Inr v \<Rightarrow> (case promise_all ps of Inl e \<Rightarrow> Inl e | Inr vs \<Rightarrow> Inr (v # vs)))"

text \<open>
  \<^verbatim>\<open>copyLabelsFromReferencedIssues\<close> (lines 76 to 121). Every rejected request is
  raised before the first label is written, so a call that fails leaves the store as it
  found it. The additions are one request and the removals one request for each label;
  the source does not wait for the removals, the model takes them as done when the call
  returns.
\<close>

definition copyLabelsFromReferencedIssues :: "manager \<Rightarrow> nat \<Rightarrow> gateway \<Rightarrow> error + gateway" where
  "copyLabelsFromReferencedIssues m pullNumber gw =
     (case pulls gw pullNumber of
        None \<Rightarrow> Inl NotFound
      | Some pull \<Rightarrow>
          let references =
                findReferencedIssues m (case pr_body pull of None \<Rightarrow> [] | Some b \<Rightarrow> b);
              pullLabels = new_Set (pr_labels pull)
          in (case promise_all (map (issueLabels gw) references) of
                Inl e \<Rightarrow> Inl e
              | Inr fetched \<Rightarrow>
                  let issueLabelSet = new_Set (concat fetched);
                      diff = setDiff pullLabels (newPullLabels m pullLabels issueLabelSet)
                  in if isEmptyDiff diff then Inr gw
                     else Inr (foldl (removeLabel pullNumber)
                                 (addLabels gw pullNumber (adds diff)) (removes diff))))"

text \<open>
  \<^verbatim>\<open>doPulls\<close> (lines 70 to 74): a loop over the pull numbers that awaits each
  reconciliation. There is no \<^verbatim>\<open>try\<close> in the source: an error raised in the body of
  the loop leaves the loop and is the outcome of \<^verbatim>\<open>doPulls\<close>. The result is that
  outcome together with the store as the loop left it.
\<close>

fun doPulls_loop :: "manager \<Rightarrow> nat list \<Rightarrow> gateway \<Rightarrow> (error + unit) \<times> gateway" where
  "doPulls_loop m [] gw = (Inr (), gw)"
| "doPulls_loop m (pull # rest) gw =
     (case copyLabelsFromReferencedIssues m pull gw of
        Inl e \<Rightarrow> (Inl e, gw)
      | Inr gw' \<Rightarrow> doPulls_loop m rest gw')"

definition doPulls :: "manager \<Rightarrow> gateway \<Rightarrow> (error + unit) \<times> gateway" where
  "doPulls m gw = doPulls_loop m (pullNumbers m) gw"

section \<open>Auxiliary notions for the proofs\<close>

text \<open>
  What \<^const>\<open>replaceLabels\<close> does to the set of the labels, whatever their order: with
  a replacement, the candidates are taken out and the replacement is put in.
\<close>

definition replace_set :: "'a set \<Rightarrow> 'a set \<Rightarrow> 'a option \<Rightarrow> 'a set" where
  "replace_set S R x = (case x of None \<Rightarrow> S | Some r \<Rightarrow> insert r (S - R))"

text \<open>
  An environment for the examples: a client is made from every token but the empty one,
  the repository is \<^verbatim>\<open>kaizencc/pr-triage-manager\<close>, and the triggering event has
  no pull request.
\<close>

abbreviation example_github :: github where
  "example_github \<equiv>
     \<lparr> getOctokit =
         (\<lambda>token. if token = [] then Inl (Error ''Parameter token or opts.auth is required'')
                  else Inr ()),
       context_repo = Inr (''kaizencc'', ''pr-triage-manager''),
       context_pull_request = None \<rparr>"

text \<open>
  The manager that the constructor builds there from no options (lemma
  \<open>constructor_default_manager\<close>): every candidate list is the default.
\<close>

abbreviation default_manager :: manager where
  "default_manager \<equiv>
     \<lparr> owner = ''kaizencc'', repo = ''pr-triage-manager'', pullNumbers = [],
       priorityLabels = [''p0'', ''p1'', ''p2''],
       classificationLabels = [''bug'', ''feature-request''],
       effortLabels = [''effort/large'', ''effort/medium'', ''effort/small''] \<rparr>"



text \<open>
  The manager for that repository with the default candidate lists and the pull numbers
  \<open>ns\<close>: the constructor builds it there from the explicit list \<open>ns\<close>, when it is
  not empty, and no other option (lemma \<open>constructor_manager_for\<close>).
\<close>

abbreviation manager_for :: "nat list \<Rightarrow> manager" where
  "manager_for ns \<equiv>
     \<lparr> owner = ''kaizencc'', repo = ''pr-triage-manager'', pullNumbers = ns,
       priorityLabels = [''p0'', ''p1'', ''p2''],
       classificationLabels = [''bug'', ''feature-request''],
       effortLabels = [''effort/large'', ''effort/medium'', ''effort/small''] \<rparr>"

section \<open>Facts about label sets\<close>

lemma set_set_add: "set (set_add s x) = insert x (set s)"
  by (auto simp: set_add_def set_has_def)

lemma set_set_delete: "set (set_delete s x) = set s - {x}"
  by (auto simp: set_delete_def)

lemma set_foldl_set_delete: "set (foldl set_delete s rs) = set s - set rs"
  by (induction rs arbitrary: s) (auto simp: set_set_delete)

lemma distinct_set_add: "distinct s \<Longrightarrow> distinct (set_add s x)"
  by (simp add: set_add_def set_has_def)

lemma distinct_set_delete: "distinct s \<Longrightarrow> distinct (set_delete s x)"
  by (simp add: set_delete_def)

lemma distinct_foldl_set_delete: "distinct s \<Longrightarrow> distinct (foldl set_delete s rs)"
  by (induction rs arbitrary: s) (simp_all add: distinct_set_delete)

lemma distinct_foldl_set_add: "distinct s \<Longrightarrow> distinct (foldl set_add s xs)"
  by (induction xs arbitrary: s) (simp_all add: distinct_set_add)

lemma set_foldl_set_add: "set (foldl set_add s xs) = set s \<union> set xs"
  by (induction xs arbitrary: s) (auto simp: set_set_add)

lemma distinct_new_Set: "distinct (new_Set xs)"
  by (simp add: new_Set_def distinct_foldl_set_add)

lemma set_new_Set: "set (new_Set xs) = set xs"
  by (simp add: new_Set_def set_foldl_set_add)

lemma set_replaceLabels_Some:
  "set (replaceLabels labels remove (Some r)) = insert r (set labels - set remove)"
  by (simp add: replaceLabels_def set_set_add set_foldl_set_delete)

lemma replaceLabels_None: "replaceLabels labels remove None = labels"
  by (simp add: replaceLabels_def)

lemma distinct_replaceLabels: "distinct labels \<Longrightarrow> distinct (replaceLabels labels remove replace)"
  by (cases replace)
     (simp_all add: replaceLabels_def distinct_set_add distinct_foldl_set_delete)

lemma find_first_index:
  "List.find P xs = Some x \<Longrightarrow>
     \<exists>i < length xs. xs ! i = x \<and> P x \<and> (\<forall>j < i. \<not> P (xs ! j))"
  by (auto simp: find_Some_iff)

lemma find_None_set: "List.find P xs = None \<longleftrightarrow> (\<forall>x \<in> set xs. \<not> P x)"
  by (auto simp: find_None_iff)

lemma find_in_set: "List.find P xs = Some x \<Longrightarrow> x \<in> set xs \<and> P x"
  by (auto simp: find_Some_iff)

lemma find_unique:
  assumes "x \<in> set xs" and "P x" and "\<And>y. y \<in> set xs \<Longrightarrow> P y \<Longrightarrow> y = x"
  shows "List.find P xs = Some x"
proof (cases "List.find P xs")
  case None
  then have "\<not> P x" using assms(1) by (simp add: find_None_set)
  with assms(2) show ?thesis by simp
next
  case (Some y)
  have "y \<in> set xs" and "P y" using find_in_set [OF Some] by simp_all
  then have "y = x" by (rule assms(3))
  with Some show ?thesis by simp
qed

lemmas eval_defs =
  constructor_def newPullLabels_def highestPriorityLabel_def classification_def
  largestEffort_def replaceLabels_def set_add_def set_delete_def set_has_def new_Set_def
  setDiff_def isEmptyDiff_def

section \<open>Facts about the constructor\<close>

lemma constructor_default_manager:
  "constructor example_github ''token''
     \<lparr> opt_priorityLabels = None, opt_classificationLabels = None,
       opt_effortLabels = None, opt_pullNumbers = None \<rparr> = Inr default_manager"
  by (simp add: constructor_def)

lemma constructor_manager_for:
  "ns \<noteq> [] \<Longrightarrow>
   constructor example_github ''token''
     \<lparr> opt_priorityLabels = None, opt_classificationLabels = None,
       opt_effortLabels = None, opt_pullNumbers = Some ns \<rparr> = Inr (manager_for ns)"
  by (simp add: constructor_def)

section \<open>Facts about the resolution of a category\<close>

lemma classification_Some:
  "classification m il = Some c \<Longrightarrow> c \<in> set (classificationLabels m) \<and> c \<in> set il"
  by (auto simp: classification_def set_has_def dest: find_in_set)

lemma largestEffort_Some:
  "largestEffort m il = Some e \<Longrightarrow> e \<in> set (effortLabels m) \<and> e \<in> set il"
  by (auto simp: largestEffort_def set_has_def dest: find_in_set)

lemma highestPriorityLabel_Some:
  "highestPriorityLabel m il pl = Some h \<Longrightarrow> h \<in> set (priorityLabels m)"
  by (auto simp: highestPriorityLabel_def split: option.splits if_splits dest: find_in_set)

lemma highestPriorityLabel_defined:
  "priorityLabels m \<noteq> [] \<Longrightarrow> \<exists>h. highestPriorityLabel m il pl = Some h"
  by (auto simp: highestPriorityLabel_def split: option.splits)

lemma set_newPullLabels:
  "set (newPullLabels m pl il) =
     (let s1 = (case highestPriorityLabel m il pl of
                  None \<Rightarrow> set pl
                | Some h \<Rightarrow> insert h (set pl - set (priorityLabels m)));
          s2 = (case classification m il of
                  None \<Rightarrow> s1
                | Some c \<Rightarrow> insert c (s1 - set (classificationLabels m)))
      in (case largestEffort m il of
            None \<Rightarrow> s2
          | Some e \<Rightarrow> insert e (s2 - set (effortLabels m))))"
  by (simp add: newPullLabels_def Let_def set_replaceLabels_Some replaceLabels_None
           split: option.splits)

lemma set_replaceLabels_all:
  "set (replaceLabels labels remove replace) = replace_set (set labels) (set remove) replace"
  by (cases replace) (simp_all add: replace_set_def set_replaceLabels_Some replaceLabels_None)

lemma replace_set_Some: "replace_set S R (Some r) = insert r (S - R)"
  by (simp add: replace_set_def)

lemma replace_set_None: "replace_set S R None = S"
  by (simp add: replace_set_def)

text \<open>
  Replacing in the three categories a second time, with the same three resolutions,
  changes nothing, when the priority candidates are no candidates of the other two
  categories.
\<close>

lemma replace_set_idem:
  assumes hP: "h \<in> P"
    and pc: "\<And>x. x \<in> P \<Longrightarrow> x \<notin> C"
    and pe: "\<And>x. x \<in> P \<Longrightarrow> x \<notin> E"
    and cC: "\<And>x. c = Some x \<Longrightarrow> x \<in> C"
    and eE: "\<And>x. e = Some x \<Longrightarrow> x \<in> E"
  shows "replace_set (replace_set (insert h
           (replace_set (replace_set (insert h (S - P)) C c) E e - P)) C c) E e =
         replace_set (replace_set (insert h (S - P)) C c) E e"
proof (cases c)
  case None
  note c = None
  show ?thesis
  proof (cases e)
    case None
    show ?thesis unfolding c None replace_set_None using hP by blast
  next
    case (Some y)
    show ?thesis unfolding c Some replace_set_None replace_set_Some
      using hP pe eE [OF Some] by blast
  qed
next
  case (Some x)
  note c = Some
  show ?thesis
  proof (cases e)
    case None
    show ?thesis unfolding c None replace_set_None replace_set_Some
      using hP pc cC [OF c] by blast
  next
    case (Some y)
    show ?thesis unfolding c Some replace_set_None replace_set_Some
      using hP pc pe cC [OF c] eE [OF Some] by blast
  qed
qed

section \<open>Facts about matching\<close>















section \<open>Facts about the loop over the pull requests\<close>

lemma doPulls_loop_append:
  "doPulls_loop m (xs @ ys) gw =
     (case doPulls_loop m xs gw of
        (Inl e, gw') \<Rightarrow> (Inl e, gw')
      | (Inr u, gw') \<Rightarrow> doPulls_loop m ys gw')"
  by (induction xs arbitrary: gw) (simp_all split: sum.splits)

text \<open>
  A chain of successful reconciliations, each starting from the store that the one
  before returned, is what the loop does on those pull requests.
\<close>

lemma doPulls_loop_chain:
  "length stores = Suc (length ps) \<Longrightarrow> stores ! 0 = gw \<Longrightarrow>
   (\<forall>i < length ps.
      copyLabelsFromReferencedIssues m (ps ! i) (stores ! i) = Inr (stores ! Suc i)) \<Longrightarrow>
   doPulls_loop m ps gw = (Inr (), last stores)"
proof (induction ps arbitrary: gw stores)
  case Nil
  then obtain s0 where "stores = [s0]" by (cases stores) auto
  with Nil show ?case by simp
next
  case (Cons p ps)
  from Cons.prems(1) obtain s0 rest where stores: "stores = s0 # rest"
    and len: "length rest = Suc (length ps)"
    by (cases stores) auto
  from Cons.prems(2) stores have s0: "s0 = gw" by simp
  from Cons.prems(3) have "copyLabelsFromReferencedIssues m ((p # ps) ! 0) (stores ! 0) =
                             Inr (stores ! Suc 0)"
    by blast
  with stores s0 have step: "copyLabelsFromReferencedIssues m p gw = Inr (rest ! 0)" by simp
  have chain: "\<forall>i < length ps.
      copyLabelsFromReferencedIssues m (ps ! i) (rest ! i) = Inr (rest ! Suc i)"
  proof (intro allI impI)
    fix i assume "i < length ps"
    then have "Suc i < length (p # ps)" by simp
    with Cons.prems(3)
    have "copyLabelsFromReferencedIssues m ((p # ps) ! Suc i) (stores ! Suc i) =
            Inr (stores ! Suc (Suc i))"
      by blast
    with stores show "copyLabelsFromReferencedIssues m (ps ! i) (rest ! i) =
                        Inr (rest ! Suc i)"
      by simp
  qed
  from Cons.IH [OF len refl chain]
  have "doPulls_loop m ps (rest ! 0) = (Inr (), last rest)" .
  moreover from len have "rest \<noteq> []" by auto
  ultimately show ?case using step stores by simp
qed

lemmas store_defs =
  issueLabels_def Let_def isEmptyDiff_def addLabels_def removeLabel_def set_add_def
  set_has_def set_delete_def

section \<open>The examples, evaluated\<close>

lemma refs_fixes_5_and_7: "findReferencedIssues default_manager ''Fixes #5 and #7'' = [5]"
  by code_simp

lemma refs_fixes_5_and_fixes_7:
  "findReferencedIssues default_manager ''Fixes #5 and fixes #7'' = [5, 7]"
  by code_simp

lemma new_labels_issue_5:
  "newPullLabels default_manager (new_Set [''p2'', ''feature-request''])
     (new_Set [''p0'', ''bug'']) = [''p0'', ''bug'']"
  by (simp add: eval_defs)

lemma diff_issue_5:
  "setDiff (new_Set [''p2'', ''feature-request'']) [''p0'', ''bug''] =
     \<lparr> adds = [''p0'', ''bug''], removes = [''p2'', ''feature-request''] \<rparr>"
  by (simp add: eval_defs)

lemma new_labels_issues_5_7:
  "newPullLabels default_manager (new_Set [''p2'', ''feature-request''])
     (new_Set [''p0'', ''bug'', ''effort/large'']) = [''p0'', ''bug'', ''effort/large'']"
  by (simp add: eval_defs)

lemma diff_issues_5_7:
  "setDiff (new_Set [''p2'', ''feature-request'']) [''p0'', ''bug'', ''effort/large''] =
     \<lparr> adds = [''p0'', ''bug'', ''effort/large''],
       removes = [''p2'', ''feature-request''] \<rparr>"
  by (simp add: eval_defs)

lemma copy_fixes_5_and_7:
  "copyLabelsFromReferencedIssues default_manager 42
     \<lparr> pulls = [42 \<mapsto> \<lparr> pr_body = Some ''Fixes #5 and #7'',
                          pr_labels = [''p2'', ''feature-request''] \<rparr>],
       issues = [5 \<mapsto> [''p0'', ''bug''], 7 \<mapsto> [''effort/large'']] \<rparr> =
   Inr \<lparr> pulls = [42 \<mapsto> \<lparr> pr_body = Some ''Fixes #5 and #7'',
                              pr_labels = [''p0'', ''bug''] \<rparr>],
           issues = [5 \<mapsto> [''p0'', ''bug''], 7 \<mapsto> [''effort/large'']] \<rparr>"
  by (simp add: copyLabelsFromReferencedIssues_def refs_fixes_5_and_7 new_labels_issue_5
        diff_issue_5 store_defs)

lemma copy_fixes_5_and_fixes_7:
  "copyLabelsFromReferencedIssues default_manager 42
     \<lparr> pulls = [42 \<mapsto> \<lparr> pr_body = Some ''Fixes #5 and fixes #7'',
                          pr_labels = [''p2'', ''feature-request''] \<rparr>],
       issues = [5 \<mapsto> [''p0'', ''bug''], 7 \<mapsto> [''effort/large'']] \<rparr> =
   Inr \<lparr> pulls = [42 \<mapsto> \<lparr> pr_body = Some ''Fixes #5 and fixes #7'',
                              pr_labels = [''p0'', ''bug'', ''effort/large''] \<rparr>],
           issues = [5 \<mapsto> [''p0'', ''bug''], 7 \<mapsto> [''effort/large'']] \<rparr>"
  by (simp add: copyLabelsFromReferencedIssues_def refs_fixes_5_and_fixes_7
        new_labels_issues_5_7 diff_issues_5_7 store_defs)

lemma refs_fixes_5: "findReferencedIssues m ''Fixes #5'' = [5]"
  by (simp add: findReferencedIssues_def issuesClosed_def hashRegex_def urlRegex_def
        atoms_def is_word_def is_digit_def line_terminator_def toLowerCase_def parseInt_def
        GITHUB_CLOSE_ISSUE_KEYWORDS_def matchAll.simps)

lemma pullNumbers_manager_for: "pullNumbers (manager_for [11, 12, 13]) = [11, 12, 13]"
  by (simp add: constructor_def)

lemma new_labels_p0:
  "newPullLabels (manager_for [11, 12, 13]) (new_Set []) (new_Set [''p0'']) = [''p0'']"
  by (simp add: eval_defs)

lemma diff_p0: "setDiff (new_Set []) [''p0''] = \<lparr> adds = [''p0''], removes = [] \<rparr>"
  by (simp add: eval_defs)

lemma copy_11:
  "copyLabelsFromReferencedIssues (manager_for [11, 12, 13]) 11
     \<lparr> pulls = [13 \<mapsto> \<lparr> pr_body = Some ''Fixes #5'', pr_labels = [] \<rparr>,
                11 \<mapsto> \<lparr> pr_body = Some ''Fixes #5'', pr_labels = [] \<rparr>],
       issues = [5 \<mapsto> [''p0'']] \<rparr> =
   Inr \<lparr> pulls = [13 \<mapsto> \<lparr> pr_body = Some ''Fixes #5'', pr_labels = [] \<rparr>,
                    11 \<mapsto> \<lparr> pr_body = Some ''Fixes #5'', pr_labels = [''p0''] \<rparr>],
           issues = [5 \<mapsto> [''p0'']] \<rparr>"
  by (simp add: copyLabelsFromReferencedIssues_def refs_fixes_5 new_labels_p0 diff_p0
        store_defs)

lemma copy_12:
  "copyLabelsFromReferencedIssues m 12
     \<lparr> pulls = [13 \<mapsto> \<lparr> pr_body = Some ''Fixes #5'', pr_labels = [] \<rparr>,
                11 \<mapsto> \<lparr> pr_body = Some ''Fixes #5'', pr_labels = [''p0''] \<rparr>],
       issues = [5 \<mapsto> [''p0'']] \<rparr> = Inl NotFound"
  by (simp add: copyLabelsFromReferencedIssues_def)

lemma copy_13:
  "copyLabelsFromReferencedIssues (manager_for [11, 12, 13]) 13
     \<lparr> pulls = [13 \<mapsto> \<lparr> pr_body = Some ''Fixes #5'', pr_labels = [] \<rparr>,
                11 \<mapsto> \<lparr> pr_body = Some ''Fixes #5'', pr_labels = [''p0''] \<rparr>],
       issues = [5 \<mapsto> [''p0'']] \<rparr> =
   Inr \<lparr> pulls = [11 \<mapsto> \<lparr> pr_body = Some ''Fixes #5'', pr_labels = [''p0''] \<rparr>,
                    13 \<mapsto> \<lparr> pr_body = Some ''Fixes #5'', pr_labels = [''p0''] \<rparr>],
           issues = [5 \<mapsto> [''p0'']] \<rparr>"
  by (simp add: copyLabelsFromReferencedIssues_def refs_fixes_5 new_labels_p0 diff_p0
        store_defs fun_eq_iff)

section \<open>Priority resolution\<close>

text \<open>
  Claim C1. With a priority list that is not empty, \<^verbatim>\<open>highestPriorityLabel\<close> always
  returns a label, and that label is an entry of the priority list: the first entry of
  the list that is among the labels of the issues when there is one; otherwise the first
  entry that is among the labels of the pull request when there is one; otherwise the
  last entry of the list.
\<close>

theorem highestPriorityLabel_fallback:
  assumes "priorityLabels m \<noteq> []"
  shows "\<exists>l. highestPriorityLabel m il pl = Some l \<and>
           l \<in> set (priorityLabels m) \<and>
           (if \<exists>x \<in> set (priorityLabels m). x \<in> set il
            then \<exists>i < length (priorityLabels m).
                   priorityLabels m ! i = l \<and> l \<in> set il \<and>
                   (\<forall>j < i. priorityLabels m ! j \<notin> set il)
            else if \<exists>x \<in> set (priorityLabels m). x \<in> set pl
            then \<exists>i < length (priorityLabels m).
                   priorityLabels m ! i = l \<and> l \<in> set pl \<and>
                   (\<forall>j < i. priorityLabels m ! j \<notin> set pl)
            else l = last (priorityLabels m))"
proof (cases "List.find (\<lambda>l. set_has il l) (priorityLabels m)")
  case (Some l)
  from find_first_index [OF Some] find_in_set [OF Some]
  have "\<exists>i < length (priorityLabels m).
          priorityLabels m ! i = l \<and> l \<in> set il \<and>
          (\<forall>j < i. priorityLabels m ! j \<notin> set il)"
    and "l \<in> set (priorityLabels m)" and "l \<in> set il"
    by (auto simp: set_has_def)
  moreover have "highestPriorityLabel m il pl = Some l"
    by (simp add: highestPriorityLabel_def Some)
  ultimately show ?thesis by auto
next
  case None
  then have no_issue: "\<not> (\<exists>x \<in> set (priorityLabels m). x \<in> set il)"
    by (simp add: find_None_set set_has_def)
  show ?thesis
  proof (cases "List.find (\<lambda>l. set_has pl l) (priorityLabels m)")
    case (Some l)
    from find_first_index [OF Some] find_in_set [OF Some]
    have "\<exists>i < length (priorityLabels m).
            priorityLabels m ! i = l \<and> l \<in> set pl \<and>
            (\<forall>j < i. priorityLabels m ! j \<notin> set pl)"
      and "l \<in> set (priorityLabels m)" and "l \<in> set pl"
      by (auto simp: set_has_def)
    moreover have "highestPriorityLabel m il pl = Some l"
      by (simp add: highestPriorityLabel_def None Some)
    ultimately show ?thesis using no_issue by auto
  next
    case none_pull: None
    then have no_pull: "\<not> (\<exists>x \<in> set (priorityLabels m). x \<in> set pl)"
      by (simp add: find_None_set set_has_def)
    have "highestPriorityLabel m il pl = Some (last (priorityLabels m))"
      using assms by (simp add: highestPriorityLabel_def None none_pull last_conv_nth)
    then show ?thesis using no_issue no_pull assms by simp
  qed
qed

text \<open>
  The default list \<^verbatim>\<open>p0, p1, p2\<close>. With no priority label anywhere the result is the
  last entry, \<^verbatim>\<open>p2\<close>; with none on the issues and \<^verbatim>\<open>p1\<close> on the pull request
  it is \<^verbatim>\<open>p1\<close>; with \<^verbatim>\<open>p1\<close> and \<^verbatim>\<open>p0\<close> on the issues it is \<^verbatim>\<open>p0\<close>,
  whatever the pull request has.
\<close>

theorem highestPriorityLabel_fallback_witness:
  "priorityLabels default_manager \<noteq> [] \<and>
   highestPriorityLabel default_manager (new_Set [''bug'']) (new_Set [''wip'']) = Some ''p2'' \<and>
   highestPriorityLabel default_manager (new_Set [''bug'']) (new_Set [''p1'']) = Some ''p1'' \<and>
   highestPriorityLabel default_manager (new_Set [''p1'', ''p0'']) (new_Set [''p2''])
     = Some ''p0''"
proof -
  have ne: "priorityLabels default_manager \<noteq> []"
    by (simp add: constructor_def)
  from highestPriorityLabel_fallback [OF ne, of "new_Set [''bug'']" "new_Set [''wip'']"]
  obtain l where
    l: "highestPriorityLabel default_manager (new_Set [''bug'']) (new_Set [''wip'']) = Some l"
    and "if \<exists>x \<in> set (priorityLabels default_manager). x \<in> set (new_Set [''bug''])
         then \<exists>i < length (priorityLabels default_manager).
                priorityLabels default_manager ! i = l \<and> l \<in> set (new_Set [''bug'']) \<and>
                (\<forall>j < i. priorityLabels default_manager ! j \<notin> set (new_Set [''bug'']))
         else if \<exists>x \<in> set (priorityLabels default_manager). x \<in> set (new_Set [''wip''])
         then \<exists>i < length (priorityLabels default_manager).
                priorityLabels default_manager ! i = l \<and> l \<in> set (new_Set [''wip'']) \<and>
                (\<forall>j < i. priorityLabels default_manager ! j \<notin> set (new_Set [''wip'']))
         else l = last (priorityLabels default_manager)"
    by blast
  then have "l = ''p2''"
    by (simp add: constructor_def set_new_Set)
  moreover have
    "highestPriorityLabel default_manager (new_Set [''bug'']) (new_Set [''p1'']) = Some ''p1''"
    by (simp add: eval_defs)
  moreover have
    "highestPriorityLabel default_manager (new_Set [''p1'', ''p0'']) (new_Set [''p2''])
       = Some ''p0''"
    by (simp add: eval_defs)
  ultimately show ?thesis using l ne by simp
qed

section \<open>The example of the specification, end to end\<close>

text \<open>
  Claim C2, as stated, fails. In the body \<^verbatim>\<open>Fixes #5 and #7\<close> the word before
  \<^verbatim>\<open>#7\<close> is \<^verbatim>\<open>and\<close>, which is no closing keyword: only issue 5 is referenced,
  the labels of issue 7 are never read, and the pull request ends with the labels
  \<^verbatim>\<open>p0\<close> and \<^verbatim>\<open>bug\<close>, without \<^verbatim>\<open>effort/large\<close>.
\<close>

theorem copyLabels_example_reads_issue_5_only:
  "findReferencedIssues default_manager ''Fixes #5 and #7'' = [5] \<and>
   copyLabelsFromReferencedIssues default_manager 42
     \<lparr> pulls = [42 \<mapsto> \<lparr> pr_body = Some ''Fixes #5 and #7'',
                          pr_labels = [''p2'', ''feature-request''] \<rparr>],
       issues = [5 \<mapsto> [''p0'', ''bug''], 7 \<mapsto> [''effort/large'']] \<rparr> =
   Inr \<lparr> pulls = [42 \<mapsto> \<lparr> pr_body = Some ''Fixes #5 and #7'',
                              pr_labels = [''p0'', ''bug''] \<rparr>],
           issues = [5 \<mapsto> [''p0'', ''bug''], 7 \<mapsto> [''effort/large'']] \<rparr> \<and>
   ''effort/large'' \<notin>
     set (newPullLabels default_manager (new_Set [''p2'', ''feature-request''])
            (new_Set [''p0'', ''bug''])) \<and>
   adds (setDiff (new_Set [''p2'', ''feature-request''])
           (newPullLabels default_manager (new_Set [''p2'', ''feature-request''])
              (new_Set [''p0'', ''bug''])))
     \<noteq> [''p0'', ''bug'', ''effort/large'']"
  by (simp add: refs_fixes_5_and_7 copy_fixes_5_and_7 new_labels_issue_5 diff_issue_5)

text \<open>
  Claim C2, amended. With the default lists, which are those of the manager built from
  no options, a pull request labelled \<^verbatim>\<open>p2\<close> and
  \<^verbatim>\<open>feature-request\<close>, issue 5 labelled \<^verbatim>\<open>p0\<close> and \<^verbatim>\<open>bug\<close>, and issue 7
  labelled \<^verbatim>\<open>effort/large\<close>: the body \<^verbatim>\<open>Fixes #5 and #7\<close> references issue 5
  only, the new labels are \<^verbatim>\<open>p0, bug\<close>, the additions \<^verbatim>\<open>p0, bug\<close> and the
  removals \<^verbatim>\<open>p2, feature-request\<close>. The body \<^verbatim>\<open>Fixes #5 and fixes #7\<close>, where
  each number has its keyword, references both issues, and then the new labels are
  \<^verbatim>\<open>p0, bug, effort/large\<close>, the additions \<^verbatim>\<open>p0, bug, effort/large\<close> and the
  removals \<^verbatim>\<open>p2, feature-request\<close>.
\<close>

theorem copyLabels_example:
  "constructor example_github ''token''
     \<lparr> opt_priorityLabels = None, opt_classificationLabels = None,
       opt_effortLabels = None, opt_pullNumbers = None \<rparr> = Inr default_manager \<and>
   findReferencedIssues default_manager ''Fixes #5 and #7'' = [5] \<and>
   newPullLabels default_manager (new_Set [''p2'', ''feature-request''])
     (new_Set (concat [[''p0'', ''bug'']])) = [''p0'', ''bug''] \<and>
   setDiff (new_Set [''p2'', ''feature-request''])
     (newPullLabels default_manager (new_Set [''p2'', ''feature-request''])
        (new_Set (concat [[''p0'', ''bug'']]))) =
     \<lparr> adds = [''p0'', ''bug''], removes = [''p2'', ''feature-request''] \<rparr> \<and>
   copyLabelsFromReferencedIssues default_manager 42
     \<lparr> pulls = [42 \<mapsto> \<lparr> pr_body = Some ''Fixes #5 and #7'',
                          pr_labels = [''p2'', ''feature-request''] \<rparr>],
       issues = [5 \<mapsto> [''p0'', ''bug''], 7 \<mapsto> [''effort/large'']] \<rparr> =
   Inr \<lparr> pulls = [42 \<mapsto> \<lparr> pr_body = Some ''Fixes #5 and #7'',
                              pr_labels = [''p0'', ''bug''] \<rparr>],
           issues = [5 \<mapsto> [''p0'', ''bug''], 7 \<mapsto> [''effort/large'']] \<rparr> \<and>
   findReferencedIssues default_manager ''Fixes #5 and fixes #7'' = [5, 7] \<and>
   newPullLabels default_manager (new_Set [''p2'', ''feature-request''])
     (new_Set (concat [[''p0'', ''bug''], [''effort/large'']])) =
     [''p0'', ''bug'', ''effort/large''] \<and>
   setDiff (new_Set [''p2'', ''feature-request''])
     (newPullLabels default_manager (new_Set [''p2'', ''feature-request''])
        (new_Set (concat [[''p0'', ''bug''], [''effort/large'']]))) =
     \<lparr> adds = [''p0'', ''bug'', ''effort/large''],
       removes = [''p2'', ''feature-request''] \<rparr> \<and>
   copyLabelsFromReferencedIssues default_manager 42
     \<lparr> pulls = [42 \<mapsto> \<lparr> pr_body = Some ''Fixes #5 and fixes #7'',
                          pr_labels = [''p2'', ''feature-request''] \<rparr>],
       issues = [5 \<mapsto> [''p0'', ''bug''], 7 \<mapsto> [''effort/large'']] \<rparr> =
   Inr \<lparr> pulls = [42 \<mapsto> \<lparr> pr_body = Some ''Fixes #5 and fixes #7'',
                              pr_labels = [''p0'', ''bug'', ''effort/large''] \<rparr>],
           issues = [5 \<mapsto> [''p0'', ''bug''], 7 \<mapsto> [''effort/large'']] \<rparr>"
  by (simp add: constructor_default_manager refs_fixes_5_and_7 refs_fixes_5_and_fixes_7
        copy_fixes_5_and_7 copy_fixes_5_and_fixes_7 new_labels_issue_5
        new_labels_issues_5_7 diff_issue_5 diff_issues_5_7)

section \<open>Replacing the labels of a category\<close>

text \<open>
  Claim C3. With a replacement, the labels after \<^verbatim>\<open>replaceLabels\<close> are the labels
  before without every candidate of the category, together with the replacement: the
  replacement is present, and no candidate other than the replacement is left, however
  many candidates were present before. Without a replacement the labels are unchanged.
\<close>

theorem replaceLabels_effect:
  "set (replaceLabels labels remove (Some r)) = insert r (set labels - set remove) \<and>
   r \<in> set (replaceLabels labels remove (Some r)) \<and>
   set (replaceLabels labels remove (Some r)) \<inter> set remove \<subseteq> {r} \<and>
   replaceLabels labels remove None = labels"
  by (auto simp: set_replaceLabels_Some replaceLabels_None)

section \<open>The difference of two label sets\<close>

text \<open>
  Claim C4. For label sets \<open>xs\<close> (the original) and \<open>ys\<close> (the new one), the
  additions of \<^verbatim>\<open>setDiff\<close> are exactly the labels of \<open>ys\<close> that are not in
  \<open>xs\<close>, the removals exactly the labels of \<open>xs\<close> that are not in \<open>ys\<close>; no
  label is both added and removed; and the difference is empty exactly when the two
  sets have the same labels.
\<close>

theorem setDiff_exact:
  "set (adds (setDiff xs ys)) = set ys - set xs \<and>
   set (removes (setDiff xs ys)) = set xs - set ys \<and>
   set (adds (setDiff xs ys)) \<inter> set (removes (setDiff xs ys)) = {} \<and>
   isEmptyDiff (setDiff xs ys) = (set xs = set ys)"
  by (auto simp: setDiff_def isEmptyDiff_def set_has_def filter_empty_conv)

section \<open>Only issues after a closing keyword\<close>




section \<open>One label for each category\<close>

text \<open>
  Claim C6, as stated, fails: a category with no resolution is left as it is. With the
  default lists, a pull request labelled \<^verbatim>\<open>bug\<close> and \<^verbatim>\<open>feature-request\<close> that
  references no issue keeps both classification labels.
\<close>

theorem newPullLabels_keeps_two_classification_labels:
  "constructor example_github ''token''
     \<lparr> opt_priorityLabels = None, opt_classificationLabels = None,
       opt_effortLabels = None, opt_pullNumbers = None \<rparr> = Inr default_manager \<and>
   newPullLabels default_manager (new_Set [''bug'', ''feature-request'']) (new_Set []) =
     [''bug'', ''feature-request'', ''p2''] \<and>
   card (set (newPullLabels default_manager (new_Set [''bug'', ''feature-request''])
                (new_Set []))
           \<inter> set (classificationLabels default_manager)) = 2"
  by (simp add: eval_defs)

text \<open>
  Claim C6, amended. When the three candidate lists have no label in common and the
  priority list is not empty, the new label set holds exactly one priority label, the
  resolved one. Of a category that has a resolution, classification or effort, it holds
  the resolved label and no other candidate. Of a category that has no resolution it
  holds exactly the candidates that the pull request had before, however many they are.
  So it holds at most one classification label when the issues have a classification
  label or the pull request had at most one before; and likewise for the effort labels.
\<close>

theorem newPullLabels_one_per_category:
  assumes ne: "priorityLabels m \<noteq> []"
    and pc: "set (priorityLabels m) \<inter> set (classificationLabels m) = {}"
    and pe: "set (priorityLabels m) \<inter> set (effortLabels m) = {}"
    and ce: "set (classificationLabels m) \<inter> set (effortLabels m) = {}"
  shows "(\<exists>h. highestPriorityLabel m il pl = Some h \<and>
              set (newPullLabels m pl il) \<inter> set (priorityLabels m) = {h}) \<and>
         card (set (newPullLabels m pl il) \<inter> set (priorityLabels m)) = 1 \<and>
         (\<forall>c. classification m il = Some c \<longrightarrow>
              set (newPullLabels m pl il) \<inter> set (classificationLabels m) = {c}) \<and>
         (classification m il = None \<longrightarrow>
            set (newPullLabels m pl il) \<inter> set (classificationLabels m) =
            set pl \<inter> set (classificationLabels m)) \<and>
         (\<forall>e. largestEffort m il = Some e \<longrightarrow>
              set (newPullLabels m pl il) \<inter> set (effortLabels m) = {e}) \<and>
         (largestEffort m il = None \<longrightarrow>
            set (newPullLabels m pl il) \<inter> set (effortLabels m) =
            set pl \<inter> set (effortLabels m)) \<and>
         (classification m il \<noteq> None \<or> card (set pl \<inter> set (classificationLabels m)) \<le> 1
            \<longrightarrow> card (set (newPullLabels m pl il) \<inter> set (classificationLabels m)) \<le> 1) \<and>
         (largestEffort m il \<noteq> None \<or> card (set pl \<inter> set (effortLabels m)) \<le> 1
            \<longrightarrow> card (set (newPullLabels m pl il) \<inter> set (effortLabels m)) \<le> 1)"
proof -
  from highestPriorityLabel_defined [OF ne]
  obtain h where h: "highestPriorityLabel m il pl = Some h" by blast
  have hP: "h \<in> set (priorityLabels m)" by (rule highestPriorityLabel_Some [OF h])
  have prio: "set (newPullLabels m pl il) \<inter> set (priorityLabels m) = {h}"
    using hP pc pe
    by (auto simp: set_newPullLabels h Let_def split: option.splits
             dest!: classification_Some largestEffort_Some)
  have cls_some: "set (newPullLabels m pl il) \<inter> set (classificationLabels m) = {c}"
    if "classification m il = Some c" for c
    using that hP pc pe ce classification_Some [OF that]
    by (auto simp: set_newPullLabels h Let_def split: option.splits
             dest!: largestEffort_Some)
  have cls_none: "set (newPullLabels m pl il) \<inter> set (classificationLabels m)
                    = set pl \<inter> set (classificationLabels m)"
    if "classification m il = None"
    using that hP pc pe ce
    by (auto simp: set_newPullLabels h Let_def split: option.splits
             dest!: largestEffort_Some)
  have eff_some: "set (newPullLabels m pl il) \<inter> set (effortLabels m) = {e}"
    if "largestEffort m il = Some e" for e
    using that hP pc pe ce largestEffort_Some [OF that]
    by (auto simp: set_newPullLabels h Let_def split: option.splits
             dest!: classification_Some)
  have eff_none: "set (newPullLabels m pl il) \<inter> set (effortLabels m)
                    = set pl \<inter> set (effortLabels m)"
    if "largestEffort m il = None"
    using that hP pc pe ce
    by (auto simp: set_newPullLabels h Let_def split: option.splits
             dest!: classification_Some)
  have c0: "\<exists>h. highestPriorityLabel m il pl = Some h \<and>
              set (newPullLabels m pl il) \<inter> set (priorityLabels m) = {h}"
    using h prio by blast
  have c1: "card (set (newPullLabels m pl il) \<inter> set (priorityLabels m)) = 1"
    by (simp add: prio)
  have c2: "card (set (newPullLabels m pl il) \<inter> set (classificationLabels m)) \<le> 1"
    if "classification m il \<noteq> None \<or> card (set pl \<inter> set (classificationLabels m)) \<le> 1"
  proof (cases "classification m il")
    case None
    with that have "card (set pl \<inter> set (classificationLabels m)) \<le> 1" by simp
    then show ?thesis by (simp add: cls_none [OF None])
  next
    case (Some c)
    then show ?thesis by (simp add: cls_some)
  qed
  have c3: "card (set (newPullLabels m pl il) \<inter> set (effortLabels m)) \<le> 1"
    if "largestEffort m il \<noteq> None \<or> card (set pl \<inter> set (effortLabels m)) \<le> 1"
  proof (cases "largestEffort m il")
    case None
    with that have "card (set pl \<inter> set (effortLabels m)) \<le> 1" by simp
    then show ?thesis by (simp add: eff_none [OF None])
  next
    case (Some e)
    then show ?thesis by (simp add: eff_some)
  qed
  from c0 c1 c2 c3 cls_some cls_none eff_some eff_none show ?thesis by blast
qed

text \<open>
  The default lists. First a pull request with two priority, two classification and
  two effort labels, and issues labelled \<^verbatim>\<open>p0\<close> and \<^verbatim>\<open>bug\<close>: one priority and
  one classification label are left, and both effort labels are kept, as the issues
  have no effort label. Then a pull request labelled \<^verbatim>\<open>bug\<close>, and an issue
  labelled \<^verbatim>\<open>effort/medium\<close>: the classification label is kept and the effort
  label of the issue is added.
\<close>

theorem newPullLabels_one_per_category_witness:
  "priorityLabels default_manager \<noteq> [] \<and>
   set (priorityLabels default_manager) \<inter> set (classificationLabels default_manager) = {} \<and>
   set (priorityLabels default_manager) \<inter> set (effortLabels default_manager) = {} \<and>
   set (classificationLabels default_manager) \<inter> set (effortLabels default_manager) = {} \<and>
   classification default_manager (new_Set [''p0'', ''bug'']) = Some ''bug'' \<and>
   largestEffort default_manager (new_Set [''p0'', ''bug'']) = None \<and>
   set (newPullLabels default_manager
          (new_Set [''p1'', ''p2'', ''bug'', ''feature-request'', ''effort/small'',
                    ''effort/large''])
          (new_Set [''p0'', ''bug''])) \<inter> set (priorityLabels default_manager) = {''p0''} \<and>
   set (newPullLabels default_manager
          (new_Set [''p1'', ''p2'', ''bug'', ''feature-request'', ''effort/small'',
                    ''effort/large''])
          (new_Set [''p0'', ''bug''])) \<inter> set (classificationLabels default_manager) =
     {''bug''} \<and>
   card (set (newPullLabels default_manager
          (new_Set [''p1'', ''p2'', ''bug'', ''feature-request'', ''effort/small'',
                    ''effort/large''])
          (new_Set [''p0'', ''bug''])) \<inter> set (classificationLabels default_manager)) \<le> 1 \<and>
   set (newPullLabels default_manager
          (new_Set [''p1'', ''p2'', ''bug'', ''feature-request'', ''effort/small'',
                    ''effort/large''])
          (new_Set [''p0'', ''bug''])) \<inter> set (effortLabels default_manager) =
     {''effort/small'', ''effort/large''} \<and>
   classification default_manager (new_Set [''effort/medium'']) = None \<and>
   largestEffort default_manager (new_Set [''effort/medium'']) = Some ''effort/medium'' \<and>
   card (set (new_Set [''bug'']) \<inter> set (classificationLabels default_manager)) \<le> 1 \<and>
   set (newPullLabels default_manager (new_Set [''bug'']) (new_Set [''effort/medium'']))
     \<inter> set (classificationLabels default_manager) = {''bug''} \<and>
   card (set (newPullLabels default_manager (new_Set [''bug''])
                (new_Set [''effort/medium'']))
     \<inter> set (classificationLabels default_manager)) \<le> 1 \<and>
   set (newPullLabels default_manager (new_Set [''bug'']) (new_Set [''effort/medium'']))
     \<inter> set (effortLabels default_manager) = {''effort/medium''}"
proof -
  let ?pl = "new_Set [''p1'', ''p2'', ''bug'', ''feature-request'', ''effort/small'',
                      ''effort/large'']"
  let ?il = "new_Set [''p0'', ''bug'']"
  have ne: "priorityLabels default_manager \<noteq> []"
    by simp
  have pc: "set (priorityLabels default_manager) \<inter>
              set (classificationLabels default_manager) = {}"
    by simp
  have pe: "set (priorityLabels default_manager) \<inter> set (effortLabels default_manager) = {}"
    by simp
  have ce: "set (classificationLabels default_manager) \<inter>
              set (effortLabels default_manager) = {}"
    by simp
  note first = newPullLabels_one_per_category [OF ne pc pe ce, where pl = ?pl and il = ?il]
  note second =
    newPullLabels_one_per_category
      [OF ne pc pe ce, where pl = "new_Set [''bug'']" and il = "new_Set [''effort/medium'']"]
  have hp: "highestPriorityLabel default_manager ?il ?pl = Some ''p0''"
    by (simp add: eval_defs)
  have cl: "classification default_manager ?il = Some ''bug''"
    by (simp add: eval_defs)
  have ef: "largestEffort default_manager ?il = None"
    by (simp add: eval_defs)
  have kept: "set ?pl \<inter> set (effortLabels default_manager) =
                {''effort/small'', ''effort/large''}"
    by (auto simp: set_new_Set)
  have cl2: "classification default_manager (new_Set [''effort/medium'']) = None"
    by (simp add: eval_defs)
  have ef2: "largestEffort default_manager (new_Set [''effort/medium'']) =
               Some ''effort/medium''"
    by (simp add: eval_defs)
  have had: "set (new_Set [''bug'']) \<inter> set (classificationLabels default_manager) =
               {''bug''}"
    by (auto simp: set_new_Set)
  then have one: "card (set (new_Set [''bug'']) \<inter>
                    set (classificationLabels default_manager)) \<le> 1"
    by simp
  from first hp
  have a1: "set (newPullLabels default_manager ?pl ?il) \<inter>
              set (priorityLabels default_manager) = {''p0''}"
    by simp
  from first cl
  have a2: "set (newPullLabels default_manager ?pl ?il) \<inter>
              set (classificationLabels default_manager) = {''bug''}"
    by blast
  from first cl
  have a3: "card (set (newPullLabels default_manager ?pl ?il) \<inter>
              set (classificationLabels default_manager)) \<le> 1"
    by simp
  from first ef kept
  have a4: "set (newPullLabels default_manager ?pl ?il) \<inter>
              set (effortLabels default_manager) = {''effort/small'', ''effort/large''}"
    by simp
  from second cl2 had
  have b1: "set (newPullLabels default_manager (new_Set [''bug''])
                   (new_Set [''effort/medium''])) \<inter>
              set (classificationLabels default_manager) = {''bug''}"
    by simp
  from second one
  have b2: "card (set (newPullLabels default_manager (new_Set [''bug''])
                   (new_Set [''effort/medium''])) \<inter>
              set (classificationLabels default_manager)) \<le> 1"
    by blast
  from second ef2
  have b3: "set (newPullLabels default_manager (new_Set [''bug''])
                   (new_Set [''effort/medium''])) \<inter>
              set (effortLabels default_manager) = {''effort/medium''}"
    by blast
  from ne pc pe ce cl ef a1 a2 a3 a4 cl2 ef2 one b1 b2 b3 show ?thesis
    by (intro conjI)
qed

section \<open>The pull requests that are reconciled\<close>

text \<open>
  Claim C7 does not hold of the constructor: with the explicit list \<open>[1, 2]\<close> and a
  triggering event for pull request \<open>9\<close>, the pull numbers of the manager are
  \<open>[1, 2, 9]\<close>. The number of the payload is pushed whether or not a list was given,
  where the comment above that code says it is used when no list is given.
\<close>

theorem constructor_explicit_list_and_context_pull:
  "constructor (example_github\<lparr>context_pull_request := Some 9\<rparr>) ''token''
     \<lparr> opt_priorityLabels = None, opt_classificationLabels = None,
       opt_effortLabels = None, opt_pullNumbers = Some [1, 2] \<rparr> =
   Inr \<lparr> owner = ''kaizencc'', repo = ''pr-triage-manager'', pullNumbers = [1, 2, 9],
         priorityLabels = [''p0'', ''p1'', ''p2''],
         classificationLabels = [''bug'', ''feature-request''],
         effortLabels = [''effort/large'', ''effort/medium'', ''effort/small''] \<rparr>"
  by (simp add: constructor_def)

section \<open>A failure while reconciling one pull request\<close>

text \<open>
  Claim C8, as stated, fails. The manager is to reconcile the pull requests 11, 12 and
  13; the repository has 11 and 13, both unlabelled and both closing issue 5, which is
  labelled \<^verbatim>\<open>p0\<close>, and has no pull request 12. \<^verbatim>\<open>doPulls\<close> labels 11, fails on 12
  and stops: 13 is left without label, although reconciling it would label it
  \<^verbatim>\<open>p0\<close>.
\<close>

theorem doPulls_leaves_later_pull_unreconciled:
  "doPulls (manager_for [11, 12, 13])
     \<lparr> pulls = [13 \<mapsto> \<lparr> pr_body = Some ''Fixes #5'', pr_labels = [] \<rparr>,
                11 \<mapsto> \<lparr> pr_body = Some ''Fixes #5'', pr_labels = [] \<rparr>],
       issues = [5 \<mapsto> [''p0'']] \<rparr> =
   (Inl NotFound,
    \<lparr> pulls = [13 \<mapsto> \<lparr> pr_body = Some ''Fixes #5'', pr_labels = [] \<rparr>,
               11 \<mapsto> \<lparr> pr_body = Some ''Fixes #5'', pr_labels = [''p0''] \<rparr>],
      issues = [5 \<mapsto> [''p0'']] \<rparr>) \<and>
   copyLabelsFromReferencedIssues (manager_for [11, 12, 13]) 13
     \<lparr> pulls = [13 \<mapsto> \<lparr> pr_body = Some ''Fixes #5'', pr_labels = [] \<rparr>,
                11 \<mapsto> \<lparr> pr_body = Some ''Fixes #5'', pr_labels = [''p0''] \<rparr>],
       issues = [5 \<mapsto> [''p0'']] \<rparr> =
   Inr \<lparr> pulls = [11 \<mapsto> \<lparr> pr_body = Some ''Fixes #5'', pr_labels = [''p0''] \<rparr>,
                    13 \<mapsto> \<lparr> pr_body = Some ''Fixes #5'', pr_labels = [''p0''] \<rparr>],
           issues = [5 \<mapsto> [''p0'']] \<rparr>"
  by (simp add: doPulls_def pullNumbers_manager_for copy_11 copy_12 copy_13)

text \<open>
  Claim C8, amended. \<^verbatim>\<open>doPulls\<close> reconciles the pull requests one after the other,
  in the order of the list, and the first failure ends it. Let reconciling the pull
  requests before \<open>pull\<close> succeed one after the other, the first from the store
  \<open>gw\<close> and each next one from the store that the one before returned (\<open>stores\<close>
  lists these stores, \<open>gw\<close> first), and let reconciling \<open>pull\<close> from the last of
  these stores raise the error \<open>e\<close>. Then \<^verbatim>\<open>doPulls\<close> raises \<open>e\<close>, and it
  leaves the repository as the reconciliation of the last pull request before \<open>pull\<close>
  returned it: the pull requests before \<open>pull\<close> have been reconciled, and nothing is
  done for the pull requests after it, whatever they are.
\<close>

theorem doPulls_stops_at_first_error:
  assumes "pullNumbers m = before @ pull # after"
    and "length stores = Suc (length before)"
    and "stores ! 0 = gw"
    and "\<forall>i < length before.
           copyLabelsFromReferencedIssues m (before ! i) (stores ! i) = Inr (stores ! Suc i)"
    and "copyLabelsFromReferencedIssues m pull (last stores) = Inl e"
  shows "doPulls m gw = (Inl e, last stores)"
proof -
  from assms(2,3,4) have "doPulls_loop m before gw = (Inr (), last stores)"
    by (rule doPulls_loop_chain)
  with assms(1,5) show ?thesis
    by (simp add: doPulls_def doPulls_loop_append)
qed

text \<open>
  The pull requests 11, 12 and 13 of the example above: reconciling 11 succeeds and
  labels it, reconciling 12 from the store so obtained fails.
\<close>

theorem doPulls_stops_at_first_error_witness:
  "pullNumbers (manager_for [11, 12, 13]) = [11] @ 12 # [13] \<and>
   copyLabelsFromReferencedIssues (manager_for [11, 12, 13]) 11
     \<lparr> pulls = [13 \<mapsto> \<lparr> pr_body = Some ''Fixes #5'', pr_labels = [] \<rparr>,
                11 \<mapsto> \<lparr> pr_body = Some ''Fixes #5'', pr_labels = [] \<rparr>],
       issues = [5 \<mapsto> [''p0'']] \<rparr> =
   Inr \<lparr> pulls = [13 \<mapsto> \<lparr> pr_body = Some ''Fixes #5'', pr_labels = [] \<rparr>,
                    11 \<mapsto> \<lparr> pr_body = Some ''Fixes #5'', pr_labels = [''p0''] \<rparr>],
           issues = [5 \<mapsto> [''p0'']] \<rparr> \<and>
   copyLabelsFromReferencedIssues (manager_for [11, 12, 13]) 12
     \<lparr> pulls = [13 \<mapsto> \<lparr> pr_body = Some ''Fixes #5'', pr_labels = [] \<rparr>,
                11 \<mapsto> \<lparr> pr_body = Some ''Fixes #5'', pr_labels = [''p0''] \<rparr>],
       issues = [5 \<mapsto> [''p0'']] \<rparr> = Inl NotFound \<and>
   doPulls (manager_for [11, 12, 13])
     \<lparr> pulls = [13 \<mapsto> \<lparr> pr_body = Some ''Fixes #5'', pr_labels = [] \<rparr>,
                11 \<mapsto> \<lparr> pr_body = Some ''Fixes #5'', pr_labels = [] \<rparr>],
       issues = [5 \<mapsto> [''p0'']] \<rparr> =
   (Inl NotFound,
    \<lparr> pulls = [13 \<mapsto> \<lparr> pr_body = Some ''Fixes #5'', pr_labels = [] \<rparr>,
               11 \<mapsto> \<lparr> pr_body = Some ''Fixes #5'', pr_labels = [''p0''] \<rparr>],
      issues = [5 \<mapsto> [''p0'']] \<rparr>)"
proof -
  let ?m = "manager_for [11, 12, 13]"
  let ?gw0 = "\<lparr> pulls = [13 \<mapsto> \<lparr> pr_body = Some ''Fixes #5'', pr_labels = [] \<rparr>,
                         11 \<mapsto> \<lparr> pr_body = Some ''Fixes #5'', pr_labels = [] \<rparr>],
                issues = [5 \<mapsto> [''p0'']] \<rparr>"
  let ?gw1 = "\<lparr> pulls = [13 \<mapsto> \<lparr> pr_body = Some ''Fixes #5'', pr_labels = [] \<rparr>,
                         11 \<mapsto> \<lparr> pr_body = Some ''Fixes #5'', pr_labels = [''p0''] \<rparr>],
                issues = [5 \<mapsto> [''p0'']] \<rparr>"
  have a: "pullNumbers ?m = [11] @ 12 # [13]"
    by simp
  have b: "length [?gw0, ?gw1] = Suc (length [11 :: nat])"
    by simp
  have c: "[?gw0, ?gw1] ! 0 = ?gw0"
    by simp
  have first: "copyLabelsFromReferencedIssues ?m 11 ?gw0 = Inr ?gw1"
    by (rule copy_11)
  then have d: "\<forall>i < length [11 :: nat].
      copyLabelsFromReferencedIssues ?m ([11] ! i) ([?gw0, ?gw1] ! i) =
        Inr ([?gw0, ?gw1] ! Suc i)"
    by simp
  have failing: "copyLabelsFromReferencedIssues ?m 12 ?gw1 = Inl NotFound"
    by (rule copy_12)
  then have e: "copyLabelsFromReferencedIssues ?m 12 (last [?gw0, ?gw1]) = Inl NotFound"
    by simp
  from doPulls_stops_at_first_error [OF a b c d e]
  have "doPulls ?m ?gw0 = (Inl NotFound, ?gw1)"
    by simp
  with a first failing show ?thesis by (intro conjI)
qed

section \<open>An empty priority list\<close>

text \<open>
  Claim C9, as stated, fails. The constructor checks no list: given the empty priority
  list, with a token and a repository that raise nothing, it returns a manager with
  that list, no error is raised, and the resolution of the priority of that manager is
  undefined.
\<close>

theorem constructor_accepts_empty_priority_list:
  "constructor example_github ''token''
     \<lparr> opt_priorityLabels = Some [], opt_classificationLabels = None,
       opt_effortLabels = None, opt_pullNumbers = None \<rparr> =
   Inr (default_manager\<lparr>priorityLabels := []\<rparr>) \<and>
   highestPriorityLabel (default_manager\<lparr>priorityLabels := []\<rparr>)
     (new_Set [''p0'']) (new_Set [''p1'']) = None"
  by (simp add: constructor_def highestPriorityLabel_def)

text \<open>
  Claim C9, amended. No candidate list makes the constructor fail. The constructor
  raises an error exactly when making the client from the token raises it or, the
  client made, reading the repository raises it, whatever the options are. When both
  succeed the constructor returns a manager for that repository, and each candidate
  list of the manager is the list that was given, whatever it is, and the default when
  none was given, for the priority as for the classification and the effort. Unless the
  empty priority list was given, the priority list of the manager is not empty and the
  resolution of the priority always yields a label of that list.
\<close>

theorem constructor_takes_lists_as_given:
  "(constructor g token opts = Inl e \<longleftrightarrow>
      getOctokit g token = Inl e \<or>
      getOctokit g token = Inr () \<and> context_repo g = Inl e) \<and>
   (getOctokit g token = Inr () \<and> context_repo g = Inr (repo_owner, repo_name) \<longrightarrow>
      (\<exists>mgr. constructor g token opts = Inr mgr \<and>
         owner mgr = repo_owner \<and> repo mgr = repo_name \<and>
         priorityLabels mgr =
           (case opt_priorityLabels opts of
              None \<Rightarrow> [''p0'', ''p1'', ''p2'']
            | Some ls \<Rightarrow> ls) \<and>
         classificationLabels mgr =
           (case opt_classificationLabels opts of
              None \<Rightarrow> [''bug'', ''feature-request'']
            | Some ls \<Rightarrow> ls) \<and>
         effortLabels mgr =
           (case opt_effortLabels opts of
              None \<Rightarrow> [''effort/large'', ''effort/medium'', ''effort/small'']
            | Some ls \<Rightarrow> ls) \<and>
         (opt_priorityLabels opts \<noteq> Some [] \<longrightarrow>
            priorityLabels mgr \<noteq> [] \<and>
            (\<exists>l. highestPriorityLabel mgr il pl = Some l \<and>
                 l \<in> set (priorityLabels mgr)))))"
proof (intro conjI impI)
  show "constructor g token opts = Inl e \<longleftrightarrow>
          getOctokit g token = Inl e \<or>
          getOctokit g token = Inr () \<and> context_repo g = Inl e"
    by (auto simp: constructor_def split: sum.splits prod.splits)
next
  assume ok: "getOctokit g token = Inr () \<and> context_repo g = Inr (repo_owner, repo_name)"
  then obtain mgr where mgr: "constructor g token opts = Inr mgr"
    and fields: "owner mgr = repo_owner" "repo mgr = repo_name"
      "priorityLabels mgr =
         (case opt_priorityLabels opts of
            None \<Rightarrow> [''p0'', ''p1'', ''p2'']
          | Some ls \<Rightarrow> ls)"
      "classificationLabels mgr =
         (case opt_classificationLabels opts of
            None \<Rightarrow> [''bug'', ''feature-request'']
          | Some ls \<Rightarrow> ls)"
      "effortLabels mgr =
         (case opt_effortLabels opts of
            None \<Rightarrow> [''effort/large'', ''effort/medium'', ''effort/small'']
          | Some ls \<Rightarrow> ls)"
    by (simp add: constructor_def)
  have "priorityLabels mgr \<noteq> [] \<and>
        (\<exists>l. highestPriorityLabel mgr il pl = Some l \<and> l \<in> set (priorityLabels mgr))"
    if given: "opt_priorityLabels opts \<noteq> Some []"
  proof -
    from given fields(3) have ne: "priorityLabels mgr \<noteq> []"
      by (cases "opt_priorityLabels opts") simp_all
    from highestPriorityLabel_defined [OF ne, of il pl]
    obtain l where l: "highestPriorityLabel mgr il pl = Some l" by blast
    from highestPriorityLabel_Some [OF l] l ne show ?thesis by blast
  qed
  with mgr fields
  show "\<exists>mgr. constructor g token opts = Inr mgr \<and>
         owner mgr = repo_owner \<and> repo mgr = repo_name \<and>
         priorityLabels mgr =
           (case opt_priorityLabels opts of
              None \<Rightarrow> [''p0'', ''p1'', ''p2'']
            | Some ls \<Rightarrow> ls) \<and>
         classificationLabels mgr =
           (case opt_classificationLabels opts of
              None \<Rightarrow> [''bug'', ''feature-request'']
            | Some ls \<Rightarrow> ls) \<and>
         effortLabels mgr =
           (case opt_effortLabels opts of
              None \<Rightarrow> [''effort/large'', ''effort/medium'', ''effort/small'']
            | Some ls \<Rightarrow> ls) \<and>
         (opt_priorityLabels opts \<noteq> Some [] \<longrightarrow>
            priorityLabels mgr \<noteq> [] \<and>
            (\<exists>l. highestPriorityLabel mgr il pl = Some l \<and>
                 l \<in> set (priorityLabels mgr)))"
    by blast
qed

text \<open>
  A priority list of two labels and the empty effort list are given, no classification
  list: the manager is built with these lists and the default classification list, and
  a priority is resolved. With the empty token, making the client raises an error
  there, and that error is what the constructor raises.
\<close>

theorem constructor_takes_lists_as_given_witness:
  "getOctokit example_github ''token'' = Inr () \<and>
   context_repo example_github = Inr (''kaizencc'', ''pr-triage-manager'') \<and>
   opt_priorityLabels
     \<lparr> opt_priorityLabels = Some [''high'', ''low''], opt_classificationLabels = None,
       opt_effortLabels = Some [], opt_pullNumbers = None \<rparr> \<noteq> Some [] \<and>
   (\<exists>mgr. constructor example_github ''token''
             \<lparr> opt_priorityLabels = Some [''high'', ''low''],
               opt_classificationLabels = None,
               opt_effortLabels = Some [], opt_pullNumbers = None \<rparr> = Inr mgr \<and>
          priorityLabels mgr = [''high'', ''low''] \<and>
          classificationLabels mgr = [''bug'', ''feature-request''] \<and>
          effortLabels mgr = [] \<and>
          (\<exists>l. highestPriorityLabel mgr (new_Set [''low'', ''bug'']) (new_Set []) = Some l \<and>
               l \<in> set (priorityLabels mgr))) \<and>
   getOctokit example_github [] = Inl (Error ''Parameter token or opts.auth is required'') \<and>
   constructor example_github []
     \<lparr> opt_priorityLabels = Some [''high'', ''low''], opt_classificationLabels = None,
       opt_effortLabels = Some [], opt_pullNumbers = None \<rparr> =
     Inl (Error ''Parameter token or opts.auth is required'')"
proof -
  let ?opts = "\<lparr> opt_priorityLabels = Some [''high'', ''low''],
                  opt_classificationLabels = None,
                  opt_effortLabels = Some [], opt_pullNumbers = None \<rparr>"
  let ?e = "Error ''Parameter token or opts.auth is required''"
  have client: "getOctokit example_github ''token'' = Inr ()" by simp
  have repository: "context_repo example_github = Inr (''kaizencc'', ''pr-triage-manager'')"
    by simp
  have given: "opt_priorityLabels ?opts \<noteq> Some []" by simp
  have no_client: "getOctokit example_github [] = Inl ?e" by simp
  note built =
    constructor_takes_lists_as_given
      [of example_github "''token''" ?opts ?e "''kaizencc''" "''pr-triage-manager''"
          "new_Set [''low'', ''bug'']" "new_Set []", THEN conjunct2]
  note failed =
    constructor_takes_lists_as_given
      [of example_github "[]" ?opts ?e "''kaizencc''" "''pr-triage-manager''"
          "new_Set [''low'', ''bug'']" "new_Set []", THEN conjunct1]
  from built client repository given
  obtain mgr where "constructor example_github ''token'' ?opts = Inr mgr"
    and "priorityLabels mgr =
           (case opt_priorityLabels ?opts of
              None \<Rightarrow> [''p0'', ''p1'', ''p2'']
            | Some ls \<Rightarrow> ls)"
    and "classificationLabels mgr =
           (case opt_classificationLabels ?opts of
              None \<Rightarrow> [''bug'', ''feature-request'']
            | Some ls \<Rightarrow> ls)"
    and "effortLabels mgr =
           (case opt_effortLabels ?opts of
              None \<Rightarrow> [''effort/large'', ''effort/medium'', ''effort/small'']
            | Some ls \<Rightarrow> ls)"
    and "\<exists>l. highestPriorityLabel mgr (new_Set [''low'', ''bug'']) (new_Set []) = Some l \<and>
             l \<in> set (priorityLabels mgr)"
    by blast
  then have ex: "\<exists>mgr. constructor example_github ''token'' ?opts = Inr mgr \<and>
          priorityLabels mgr = [''high'', ''low''] \<and>
          classificationLabels mgr = [''bug'', ''feature-request''] \<and>
          effortLabels mgr = [] \<and>
          (\<exists>l. highestPriorityLabel mgr (new_Set [''low'', ''bug'']) (new_Set []) = Some l \<and>
               l \<in> set (priorityLabels mgr))"
    by (intro exI [of _ mgr]) simp
  from failed no_client have "constructor example_github [] ?opts = Inl ?e" by blast
  with client repository given ex no_client show ?thesis by blast
qed

section \<open>Reconciling twice\<close>

text \<open>
  Claim C10, as stated, fails when a priority candidate is also a candidate of another
  category. With the priority list \<^verbatim>\<open>p0, p1\<close> and the classification list
  \<^verbatim>\<open>p0, bug\<close>, a pull request labelled \<^verbatim>\<open>p0\<close> that references an issue labelled
  \<^verbatim>\<open>bug\<close> gets the labels \<^verbatim>\<open>bug\<close> the first time and \<^verbatim>\<open>p1, bug\<close> the second
  time.
\<close>

theorem newPullLabels_twice_differs_on_shared_candidate:
  "constructor example_github ''token''
     \<lparr> opt_priorityLabels = Some [''p0'', ''p1''],
       opt_classificationLabels = Some [''p0'', ''bug''],
       opt_effortLabels = None, opt_pullNumbers = None \<rparr> =
   Inr (default_manager
          \<lparr>priorityLabels := [''p0'', ''p1''], classificationLabels := [''p0'', ''bug'']\<rparr>) \<and>
   set (newPullLabels
          (default_manager
             \<lparr>priorityLabels := [''p0'', ''p1''], classificationLabels := [''p0'', ''bug'']\<rparr>)
          (new_Set [''p0'']) (new_Set [''bug''])) = {''bug''} \<and>
   set (newPullLabels
          (default_manager
             \<lparr>priorityLabels := [''p0'', ''p1''], classificationLabels := [''p0'', ''bug'']\<rparr>)
          (newPullLabels
             (default_manager
                \<lparr>priorityLabels := [''p0'', ''p1''],
                  classificationLabels := [''p0'', ''bug'']\<rparr>)
             (new_Set [''p0'']) (new_Set [''bug'']))
          (new_Set [''bug''])) = {''p1'', ''bug''}"
  by (simp add: eval_defs)

text \<open>
  Claim C10, amended. When the priority list is not empty and shares no label with the
  classification list and the effort list, computing the new labels again from the new
  labels, with the same labels of the issues, gives the same set of labels, and the
  difference between the two is empty.
\<close>

theorem newPullLabels_idempotent:
  assumes ne: "priorityLabels m \<noteq> []"
    and pc: "set (priorityLabels m) \<inter> set (classificationLabels m) = {}"
    and pe: "set (priorityLabels m) \<inter> set (effortLabels m) = {}"
  shows "set (newPullLabels m (newPullLabels m pl il) il) = set (newPullLabels m pl il) \<and>
         isEmptyDiff (setDiff (newPullLabels m pl il)
                        (newPullLabels m (newPullLabels m pl il) il))"
proof -
  let ?T = "newPullLabels m pl il"
  from highestPriorityLabel_defined [OF ne]
  obtain h where h: "highestPriorityLabel m il pl = Some h" by blast
  have hP: "h \<in> set (priorityLabels m)" by (rule highestPriorityLabel_Some [OF h])
  have prio: "set ?T \<inter> set (priorityLabels m) = {h}"
    using hP pc pe
    by (auto simp: set_newPullLabels h Let_def split: option.splits
             dest!: classification_Some largestEffort_Some)
  have h2: "highestPriorityLabel m il ?T = Some h"
  proof (cases "List.find (\<lambda>l. set_has il l) (priorityLabels m)")
    case (Some l)
    with h show ?thesis by (simp add: highestPriorityLabel_def)
  next
    case None
    have "List.find (\<lambda>l. set_has ?T l) (priorityLabels m) = Some h"
      using prio hP by (intro find_unique) (auto simp: set_has_def)
    then show ?thesis by (simp add: highestPriorityLabel_def None)
  qed
  have T: "set ?T =
             replace_set (replace_set (insert h (set pl - set (priorityLabels m)))
               (set (classificationLabels m)) (classification m il))
               (set (effortLabels m)) (largestEffort m il)"
    by (simp add: newPullLabels_def h set_replaceLabels_all replace_set_Some)
  have T2: "set (newPullLabels m ?T il) =
              replace_set (replace_set (insert h (set ?T - set (priorityLabels m)))
                (set (classificationLabels m)) (classification m il))
                (set (effortLabels m)) (largestEffort m il)"
    by (simp add: newPullLabels_def [of m ?T il] h2 set_replaceLabels_all replace_set_Some)
  have cC: "\<And>c. classification m il = Some c \<Longrightarrow> c \<in> set (classificationLabels m)"
    by (simp add: classification_Some)
  have eE: "\<And>e. largestEffort m il = Some e \<Longrightarrow> e \<in> set (effortLabels m)"
    by (simp add: largestEffort_Some)
  have eq: "set (newPullLabels m ?T il) = set ?T"
    unfolding T2 unfolding T
    using pc pe by (intro replace_set_idem [OF hP _ _ cC eE]) auto
  then show ?thesis
    by (auto simp: setDiff_def isEmptyDiff_def set_has_def filter_empty_conv)
qed

text \<open>
  The default lists, a pull request labelled \<^verbatim>\<open>p2\<close> and \<^verbatim>\<open>feature-request\<close>, and
  issues labelled \<^verbatim>\<open>p0\<close> and \<^verbatim>\<open>bug\<close>.
\<close>

theorem newPullLabels_idempotent_witness:
  "priorityLabels default_manager \<noteq> [] \<and>
   set (priorityLabels default_manager) \<inter> set (classificationLabels default_manager) = {} \<and>
   set (priorityLabels default_manager) \<inter> set (effortLabels default_manager) = {} \<and>
   set (newPullLabels default_manager
          (newPullLabels default_manager (new_Set [''p2'', ''feature-request''])
             (new_Set [''p0'', ''bug'']))
          (new_Set [''p0'', ''bug''])) = {''p0'', ''bug''} \<and>
   isEmptyDiff
     (setDiff
        (newPullLabels default_manager (new_Set [''p2'', ''feature-request''])
           (new_Set [''p0'', ''bug'']))
        (newPullLabels default_manager
           (newPullLabels default_manager (new_Set [''p2'', ''feature-request''])
              (new_Set [''p0'', ''bug'']))
           (new_Set [''p0'', ''bug''])))"
proof -
  have ne: "priorityLabels default_manager \<noteq> []"
    by (simp add: constructor_def)
  have pc: "set (priorityLabels default_manager) \<inter>
              set (classificationLabels default_manager) = {}"
    by (simp add: constructor_def)
  have pe: "set (priorityLabels default_manager) \<inter> set (effortLabels default_manager) = {}"
    by (simp add: constructor_def)
  have first: "set (newPullLabels default_manager (new_Set [''p2'', ''feature-request''])
               (new_Set [''p0'', ''bug''])) = {''p0'', ''bug''}"
    by (simp add: new_labels_issue_5)
  from newPullLabels_idempotent [OF ne pc pe,
      of "new_Set [''p2'', ''feature-request'']" "new_Set [''p0'', ''bug'']"]
  show ?thesis using ne pc pe first by simp
qed

end
